theory Spec2Isabelle
  imports Complex_Main
begin

section \<open>Periodic geometry and symmetry classification of \<open>pyxtal/operations.py\<close>\<close>

text \<open>
  The module computes on IEEE double-precision numbers.  In the embedding a finite double
  is the real number it denotes (type \<open>real\<close>; infinities and NaN are not values of
  the model).  Operations that are exact on doubles are the real operations: comparison,
  \<open>abs\<close>, negation, \<open>np.floor\<close>, \<open>np.round\<close>, the conversion of a small Python int,
  and the difference \<open>x - np.round(x)\<close>, which is representable for every double \<open>x\<close>.
  Operations that round are not interpreted: they are fields of the record \<open>numerics\<close>,
  which every function takes as its first argument, so that each theorem holds for the
  double-precision operations whatever their rounding.  The constant \<open>pi\<close>, imported by
  the module from \<open>pyxtal.constants\<close>, is a field of the same record.  Two instances
  are given: \<open>exact_numerics\<close>, in which nothing rounds, and \<open>double_numerics\<close>, in which
  every operation rounds once to a 53-bit significand.
\<close>

record numerics =
  fmul :: "real \<Rightarrow> real \<Rightarrow> real"
  fdiv :: "real \<Rightarrow> real \<Rightarrow> real"
  fadd :: "real \<Rightarrow> real \<Rightarrow> real"
  fsub :: "real \<Rightarrow> real \<Rightarrow> real"
  const_pi :: real

text \<open>
  The instance in which no operation rounds: exact real arithmetic and the real number
  \<open>pi\<close>.  It serves as a concrete argument where a theorem is applied to an example.
\<close>

definition exact_numerics :: numerics where
  "exact_numerics =
     \<lparr>fmul = (\<lambda>a b. a * b), fdiv = (\<lambda>a b. a / b), fadd = (\<lambda>a b. a + b),
      fsub = (\<lambda>a b. a - b), const_pi = pi\<rparr>"

subsection \<open>Order search: \<open>OperationAnalyzer.get_order\<close>\<close>

text \<open>\<open>np.round\<close>: round to the nearest integer, halves to the even neighbour.\<close>

definition np_round :: "real \<Rightarrow> real" where
  "np_round x =
     (let f = \<lfloor>x\<rfloor>; r = x - of_int f
      in if r < 1/2 then of_int f
         else if 1/2 < r then of_int (f + 1)
         else if even f then of_int f else of_int (f + 1))"

text \<open>
  The first line of the loop body, \<open>x = (n*angle) / (2.*pi)\<close>: one rounded product
  \<open>n*angle\<close>, the product \<open>2.*pi\<close>, and one rounded quotient.
\<close>

definition turns :: "numerics \<Rightarrow> real \<Rightarrow> nat \<Rightarrow> real" where
  "turns N angle n = fdiv N (fmul N (real n) angle) (fmul N 2 (const_pi N))"

text \<open>The rest of the loop body: \<open>y = x - np.round(x)\<close> and the test \<open>abs(y) <= tol\<close>.\<close>

definition order_hit :: "numerics \<Rightarrow> real \<Rightarrow> real \<Rightarrow> nat \<Rightarrow> bool" where
  "order_hit N angle tol n =
     (let x = turns N angle n; y = x - np_round x in \<bar>y\<bar> \<le> tol)"

text \<open>The result of \<open>get_order\<close> is a Python int or the string \<open>"irrational"\<close>.\<close>

datatype order_val = IntOrder nat | Irrational

text \<open>
  \<open>for n in range(1, 61)\<close> with \<open>break\<close> at the first hit is \<open>find\<close> over \<open>[1..<61]\<close>;
  \<open>found\<close> is whether \<open>find\<close> returns \<open>Some\<close>.
\<close>

definition get_order :: "numerics \<Rightarrow> real \<Rightarrow> bool \<Rightarrow> real \<Rightarrow> order_val" where
  "get_order N angle rotoinversion tol =
     (case find (order_hit N angle tol) [1..<61] of
        Some n \<Rightarrow>
          (if rotoinversion then (if n mod 2 = 1 then IntOrder (n * 2) else IntOrder n)
           else IntOrder n)
      | None \<Rightarrow> Irrational)"

text \<open>
  The specification's wording of the acceptance test: \<open>x\<close> is within \<open>tol\<close> of an integer.
\<close>

definition near_integer :: "real \<Rightarrow> real \<Rightarrow> bool" where
  "near_integer x tol = (\<exists>k::int. \<bar>x - of_int k\<bar> \<le> tol)"

subsection \<open>Values, errors and the library functions\<close>

datatype py_error = ValueError | IndexError | AttributeError | TypeError | NameError

text \<open>A 3-vector and a 3x3 array (the tuple of its rows).\<close>

type_synonym vec3 = "real \<times> real \<times> real"
type_synonym mat3 = "vec3 \<times> vec3 \<times> vec3"

text \<open>
  The double-precision literals of the source, as the real numbers they denote:
  \<open>1e-2\<close>, \<open>.001\<close> (also written \<open>1e-3\<close>), \<open>1e-5\<close>, \<open>1e-6\<close> and \<open>1e-8\<close>.
\<close>

definition dbl_1em2 :: real where "dbl_1em2 = 5764607523034235 / 2 ^ 59"
definition dbl_1em3 :: real where "dbl_1em3 = 1152921504606847 / 2 ^ 60"
definition dbl_1em5 :: real where "dbl_1em5 = 5902958103587057 / 2 ^ 69"
definition dbl_1em6 :: real where "dbl_1em6 = 4722366482869645 / 2 ^ 72"
definition dbl_1em8 :: real where "dbl_1em8 = 3022314549036573 / 2 ^ 78"

text \<open>
  NumPy and SciPy kernels whose rounding (and, for \<open>np.dot\<close>, order of summation) the
  source does not fix are arguments as well: the matrix, vector-matrix and vector-vector
  forms of \<open>np.dot\<close>, \<open>np.linalg.det\<close>, \<open>np.linalg.norm\<close>, \<open>np.sqrt\<close>, one entry of
  \<open>cdist(XA, XB, 'euclidean')\<close>, \<open>Rotation.from_matrix(m).as_rotvec()\<close>, and the
  power \<open>b**2\<close> of a double.  The constant \<open>pyxtal_verbosity\<close> comes from
  \<open>pyxtal.constants\<close>.
\<close>

record library =
  np_dot_mm :: "mat3 \<Rightarrow> mat3 \<Rightarrow> mat3"
  np_dot_vm :: "vec3 \<Rightarrow> mat3 \<Rightarrow> vec3"
  np_dot_vv :: "vec3 \<Rightarrow> vec3 \<Rightarrow> real"
  np_linalg_det :: "mat3 \<Rightarrow> real"
  np_linalg_norm :: "vec3 \<Rightarrow> real"
  np_sqrt :: "real \<Rightarrow> real"
  cdist_euclidean :: "vec3 \<Rightarrow> vec3 \<Rightarrow> real"
  as_rotvec :: "mat3 \<Rightarrow> vec3"
  float_pow2 :: "real \<Rightarrow> real"
  pyxtal_verbosity :: int

text \<open>Element-wise arithmetic on 3-vectors, each component rounded by the given operation.\<close>

fun vaddf :: "numerics \<Rightarrow> vec3 \<Rightarrow> vec3 \<Rightarrow> vec3" where
  "vaddf N (a, b, c) (x, y, z) = (fadd N a x, fadd N b y, fadd N c z)"

fun vsubf :: "numerics \<Rightarrow> vec3 \<Rightarrow> vec3 \<Rightarrow> vec3" where
  "vsubf N (a, b, c) (x, y, z) = (fsub N a x, fsub N b y, fsub N c z)"

fun vscalef :: "numerics \<Rightarrow> vec3 \<Rightarrow> real \<Rightarrow> vec3" where
  "vscalef N (x, y, z) k = (fmul N x k, fmul N y k, fmul N z k)"

fun vdivf :: "numerics \<Rightarrow> vec3 \<Rightarrow> real \<Rightarrow> vec3" where
  "vdivf N (x, y, z) k = (fdiv N x k, fdiv N y k, fdiv N z k)"

text \<open>Negation and transposition are exact.\<close>

fun vneg :: "vec3 \<Rightarrow> vec3" where
  "vneg (x, y, z) = (- x, - y, - z)"

fun mneg :: "mat3 \<Rightarrow> mat3" where
  "mneg (r0, r1, r2) = (vneg r0, vneg r1, vneg r2)"

fun transpose3 :: "mat3 \<Rightarrow> mat3" where
  "transpose3 ((a00, a01, a02), (a10, a11, a12), (a20, a21, a22)) =
     ((a00, a10, a20), (a01, a11, a21), (a02, a12, a22))"

fun entries :: "mat3 \<Rightarrow> real list" where
  "entries ((a00, a01, a02), (a10, a11, a12), (a20, a21, a22)) =
     [a00, a01, a02, a10, a11, a12, a20, a21, a22]"

definition eye3 :: mat3 where
  "eye3 = ((1, 0, 0), (0, 1, 0), (0, 0, 1))"

text \<open>
  \<open>np.isclose(a, b, rtol, atol)\<close> on finite values is
  \<open>abs(a - b) <= atol + rtol * abs(b)\<close>; \<open>np.allclose\<close> is its conjunction over the
  entries.  The defaults are \<open>rtol=1e-5\<close> and \<open>atol=1e-8\<close>.
\<close>

definition np_isclose :: "numerics \<Rightarrow> real \<Rightarrow> real \<Rightarrow> real \<Rightarrow> real \<Rightarrow> bool" where
  "np_isclose N a b rtol atol = (\<bar>fsub N a b\<bar> \<le> fadd N atol (fmul N rtol \<bar>b\<bar>))"

definition np_allclose :: "numerics \<Rightarrow> mat3 \<Rightarrow> mat3 \<Rightarrow> real \<Rightarrow> real \<Rightarrow> bool" where
  "np_allclose N a b rtol atol =
     list_all (\<lambda>(x, y). np_isclose N x y rtol atol) (zip (entries a) (entries b))"

subsection \<open>\<open>printx\<close>\<close>

text \<open>What \<open>printx\<close> does is recorded as a list of events.\<close>

datatype event = Warn string | Print string

definition printx :: "library \<Rightarrow> string \<Rightarrow> int \<Rightarrow> event list" where
  "printx L text priority =
     (if priority \<le> 1 then [Warn text]
      else if priority \<le> pyxtal_verbosity L then [Print text] else [])"

subsection \<open>\<open>is_orthogonal\<close>\<close>

definition is_orthogonal :: "numerics \<Rightarrow> library \<Rightarrow> mat3 \<Rightarrow> real \<Rightarrow> bool" where
  "is_orthogonal N L m tol =
     (let m1 = np_dot_mm L m (transpose3 m);
          m2 = np_dot_mm L (transpose3 m) m
      in if \<not> np_allclose N m1 eye3 tol dbl_1em8 \<or> \<not> np_allclose N m2 eye3 tol dbl_1em8
         then False else True)"

subsection \<open>\<open>OperationAnalyzer\<close>\<close>

text \<open>
  A \<open>SymmOp\<close> of pymatgen, by the three things the module reads from it: the rotation
  matrix, the translation vector and the tolerance.
\<close>

record symmop =
  rotation_matrix :: mat3
  translation_vector :: vec3
  op_tol :: real

text \<open>\<open>SymmOp.from_rotation_and_translation\<close>; the tolerance defaults to \<open>0.01\<close>.\<close>

definition from_rotation_and_translation :: "mat3 \<Rightarrow> vec3 \<Rightarrow> symmop" where
  "from_rotation_and_translation r t =
     \<lparr>rotation_matrix = r, translation_vector = t, op_tol = dbl_1em2\<rparr>"

text \<open>
  An attribute of a Python object is absent (\<open>Unset\<close>: reading it raises
  \<open>AttributeError\<close>), holds \<open>None\<close>, or holds a value.
\<close>

datatype 'a attr = Unset | PyNone | Val 'a

record analyzer =
  a_op :: "symmop attr"
  a_tol :: "real attr"
  a_affine_matrix :: "(mat3 \<times> vec3) attr"
  a_m :: "mat3 attr"
  a_det :: "real attr"
  a_type :: "string attr"
  a_axis :: "vec3 attr"
  a_angle :: "real attr"
  a_order :: "order_val attr"
  a_rotation_order :: "order_val attr"
  a_inverted :: "bool attr"

text \<open>The object before \<open>__init__\<close> has assigned anything.\<close>

definition new_object :: analyzer where
  "new_object =
     \<lparr>a_op = Unset, a_tol = Unset, a_affine_matrix = Unset, a_m = Unset, a_det = Unset,
      a_type = Unset, a_axis = Unset, a_angle = Unset, a_order = Unset,
      a_rotation_order = Unset, a_inverted = Unset\<rparr>"

text \<open>
  The argument of the constructor: a \<open>SymmOp\<close>, an \<open>np.ndarray\<close> or \<open>np.matrix\<close> (a
  two-dimensional array, given by its rows), or an object of any other type.
\<close>

datatype init_arg = ArgSymmOp symmop | ArgArray "real list list" | ArgOther

definition shape_is_3x3 :: "real list list \<Rightarrow> bool" where
  "shape_is_3x3 rows = (length rows = 3 \<and> list_all (\<lambda>r. length r = 3) rows)"

definition row3 :: "real list \<Rightarrow> vec3" where
  "row3 r = (r ! 0, r ! 1, r ! 2)"

definition to_mat3 :: "real list list \<Rightarrow> mat3" where
  "to_mat3 rows = (row3 (rows ! 0), row3 (rows ! 1), row3 (rows ! 2))"

text \<open>
  The two branches of \<open>__init__\<close> that compute the rotation vector share the lines from
  \<open>rotvec = ...\<close> to the assignment of \<open>self.axis\<close>; \<open>set_axis_angle\<close> is those lines,
  applied to the matrix handed to \<open>Rotation.from_matrix\<close>.
\<close>

definition set_axis_angle :: "numerics \<Rightarrow> library \<Rightarrow> analyzer \<Rightarrow> mat3 \<Rightarrow> analyzer" where
  "set_axis_angle N L self m =
     (let rotvec = as_rotvec L m
      in if np_dot_vv L rotvec rotvec < dbl_1em6
         then self\<lparr>a_axis := PyNone, a_angle := Val 0\<rparr>
         else let ang = np_linalg_norm L rotvec
              in self\<lparr>a_angle := Val ang, a_axis := Val (vdivf N rotvec ang)\<rparr>)"

text \<open>
  The part of \<open>__init__\<close> from \<open>if not is_orthogonal(self.m)\<close> on, for an object whose
  attribute \<open>m\<close> holds the matrix \<open>m\<close>.
\<close>

definition classify :: "numerics \<Rightarrow> library \<Rightarrow> analyzer \<Rightarrow> mat3 \<Rightarrow> py_error + analyzer" where
  "classify N L self m =
     (if \<not> is_orthogonal N L m dbl_1em3 then
        Inr (self\<lparr>a_type := Val ''general'', a_axis := PyNone, a_angle := PyNone,
                  a_order := PyNone, a_rotation_order := PyNone\<rparr>)
      else if 0 < np_linalg_det L m then
        (let self1 = set_axis_angle N L (self\<lparr>a_inverted := Val False\<rparr>) m
         in case a_angle self1 of
              Val ang \<Rightarrow>
                if np_isclose N ang 0 dbl_1em5 dbl_1em8 then
                  Inr (self1\<lparr>a_type := Val ''identity'', a_order := Val (IntOrder 1),
                             a_rotation_order := Val (IntOrder 1)\<rparr>)
                else
                  (let ord = get_order N ang False dbl_1em2
                   in Inr (self1\<lparr>a_type := Val ''rotation'', a_order := Val ord,
                                  a_rotation_order := Val ord\<rparr>))
            | PyNone \<Rightarrow> Inl TypeError
            | Unset \<Rightarrow> Inl AttributeError)
      else if np_linalg_det L m < 0 then
        (let self1 = set_axis_angle N L (self\<lparr>a_inverted := Val True\<rparr>) (mneg m)
         in case a_angle self1 of
              Val ang \<Rightarrow>
                if np_isclose N ang 0 dbl_1em5 dbl_1em8 then
                  Inr (self1\<lparr>a_type := Val ''inversion'', a_order := Val (IntOrder 2),
                             a_rotation_order := Val (IntOrder 1)\<rparr>)
                else
                  (case a_axis self1 of
                     Val ax \<Rightarrow>
                       Inr (self1\<lparr>a_axis := Val (vneg ax), a_type := Val ''rotoinversion'',
                                  a_order := Val (get_order N ang True dbl_1em2),
                                  a_rotation_order := Val (get_order N ang False dbl_1em2)\<rparr>)
                   | PyNone \<Rightarrow> Inl TypeError
                   | Unset \<Rightarrow> Inl AttributeError)
            | PyNone \<Rightarrow> Inl TypeError
            | Unset \<Rightarrow> Inl AttributeError)
      else
        Inr (self\<lparr>a_type := Val ''degenerate'', a_axis := PyNone, a_angle := PyNone\<rparr>))"

text \<open>
  \<open>OperationAnalyzer.__init__\<close>.  The result is the list of events and either the
  exception that ends the construction or the constructed object.  The first part sets
  the attributes that depend on the kind of argument; the test
  \<open>if not is_orthogonal(self.m)\<close> then reads \<open>self.m\<close>.
\<close>

definition OperationAnalyzer_init ::
  "numerics \<Rightarrow> library \<Rightarrow> init_arg \<Rightarrow> event list \<times> (py_error + analyzer)" where
  "OperationAnalyzer_init N L op =
     (let (events, self) =
        (case op of
           ArgSymmOp s \<Rightarrow>
             ([], new_object\<lparr>a_op := Val s, a_tol := Val (op_tol s),
                   a_affine_matrix := Val (rotation_matrix s, translation_vector s),
                   a_m := Val (rotation_matrix s),
                   a_det := Val (np_linalg_det L (rotation_matrix s))\<rparr>)
         | ArgArray rows \<Rightarrow>
             if shape_is_3x3 rows then
               (let s = from_rotation_and_translation (to_mat3 rows) (0, 0, 0)
                in ([], new_object\<lparr>a_op := Val s, a_m := Val (rotation_matrix s),
                         a_det := Val (np_linalg_det L (to_mat3 rows))\<rparr>))
             else ([], new_object)
         | ArgOther \<Rightarrow>
             (printx L ''Error: OperationAnalyzer requires a SymmOp or 3x3 array.'' 1,
              new_object))
      in (events,
          case a_m self of
            Val m \<Rightarrow> classify N L self m
          | PyNone \<Rightarrow> Inl TypeError
          | Unset \<Rightarrow> Inl AttributeError))"

text \<open>
  \<open>OperationAnalyzer.__str__\<close>.  The loop over \<open>enumerate(self.axis)\<close> assigns \<open>0.\<close> to
  every component that \<open>np.isclose(x, 0)\<close> accepts; the assignment is to the array held by
  the attribute.  The text itself is built from \<open>self.op\<close>, \<open>self.type\<close>, \<open>self.order\<close>,
  \<open>self.angle\<close> and \<open>self.axis\<close>, read in this order, by string formatting that is
  outside the module (\<open>render\<close>).  The result is the object after the call and the value
  returned or the exception raised.
\<close>

definition OperationAnalyzer_str ::
  "numerics \<Rightarrow> (analyzer \<Rightarrow> string) \<Rightarrow> analyzer \<Rightarrow> analyzer \<times> (py_error + string)" where
  "OperationAnalyzer_str N render self =
     (case a_axis self of
        Unset \<Rightarrow> (self, Inl AttributeError)
      | ax \<Rightarrow>
          (let self1 =
             (case ax of
                Val (x, y, z) \<Rightarrow>
                  self\<lparr>a_axis :=
                    Val (if np_isclose N x 0 dbl_1em5 dbl_1em8 then 0 else x,
                         if np_isclose N y 0 dbl_1em5 dbl_1em8 then 0 else y,
                         if np_isclose N z 0 dbl_1em5 dbl_1em8 then 0 else z)\<rparr>
              | _ \<Rightarrow> self)
           in if a_op self1 = Unset \<or> a_op self1 = PyNone \<or> a_type self1 = Unset
                 \<or> a_order self1 = Unset \<or> a_angle self1 = Unset
              then (self1, Inl AttributeError)
              else (self1, Inr (render self1))))"

text \<open>
  \<open>OperationAnalyzer.is_conjugate\<close>.  The argument is an \<open>OperationAnalyzer\<close> or something
  else, from which one is constructed first.  The two branches differ in one place: the
  first applies \<open>np.fabs\<close> to the ratio, the second does not (\<open>use_fabs\<close>).  A Python
  function that reaches its end without \<open>return\<close> returns \<open>None\<close>: the result is
  \<open>Some True\<close>, \<open>Some False\<close> or \<open>None\<close>.
\<close>

datatype conj_arg = Classified analyzer | Unclassified init_arg

definition conjugate_test ::
  "numerics \<Rightarrow> bool \<Rightarrow> analyzer \<Rightarrow> analyzer \<Rightarrow> py_error + bool option" where
  "conjugate_test N use_fabs self opa2 =
     (if a_type opa2 = Unset \<or> a_type self = Unset then Inl AttributeError
      else if a_type opa2 = a_type self then
        (if a_type self = Val ''rotation'' \<or> a_type self = Val ''rotoinversion'' then
           (case (a_angle self, a_angle opa2) of
              (Val ra, Val rb) \<Rightarrow>
                (let ratio = fdiv N ra rb
                 in if np_isclose N (if use_fabs then \<bar>ratio\<bar> else ratio) 1 dbl_1em5 dbl_1em2
                    then Inr (Some True) else Inr None)
            | (Unset, _) \<Rightarrow> Inl AttributeError
            | (_, Unset) \<Rightarrow> Inl AttributeError
            | _ \<Rightarrow> Inl TypeError)
         else if a_type self = Val ''identity'' \<or> a_type self = Val ''inversion'' then
           Inr (Some True)
         else Inr None)
      else Inr (Some False))"

definition is_conjugate ::
  "numerics \<Rightarrow> library \<Rightarrow> analyzer \<Rightarrow> conj_arg \<Rightarrow> event list \<times> (py_error + bool option)" where
  "is_conjugate N L self op2 =
     (case op2 of
        Unclassified x \<Rightarrow>
          (case OperationAnalyzer_init N L x of
             (events, Inl e) \<Rightarrow> (events, Inl e)
           | (events, Inr opa2) \<Rightarrow> (events, conjugate_test N True self opa2))
      | Classified b \<Rightarrow> ([], conjugate_test N False self b))"

subsection \<open>Periodic images: \<open>create_matrix\<close>, \<open>filtered_coords\<close>, \<open>distance\<close>\<close>

text \<open>
  \<open>PBC\<close> is a list of three flags, \<open>1\<close> for a periodic axis and \<open>0\<close> otherwise; the model
  has a triple of booleans, and \<open>flag\<close> is the number a flag is in \<open>np.multiply(f, PBC)\<close>.
\<close>

type_synonym pbc = "bool \<times> bool \<times> bool"

definition flag :: "bool \<Rightarrow> real" where
  "flag p = (if p then 1 else 0)"

definition create_matrix :: "pbc \<Rightarrow> vec3 list" where
  "create_matrix PBC =
     (case PBC of (p0, p1, p2) \<Rightarrow>
        let i_list = (if \<not> p0 then [0] else [-1, 0, 1]);
            j_list = (if \<not> p1 then [0] else [-1, 0, 1]);
            k_list = (if \<not> p2 then [0] else [-1, 0, 1])
        in concat (map (\<lambda>i. concat (map (\<lambda>j. map (\<lambda>k. (i, j, k)) k_list) j_list)) i_list))"

text \<open>
  \<open>filter_vector\<close>: \<open>f = np.floor(vector)\<close> and \<open>vector - np.multiply(f, PBC)\<close>; the floor
  and the product with a flag are exact, the subtraction rounds.
\<close>

fun filter_vector :: "numerics \<Rightarrow> pbc \<Rightarrow> vec3 \<Rightarrow> vec3" where
  "filter_vector N (p0, p1, p2) (x, y, z) =
     (fsub N x (of_int \<lfloor>x\<rfloor> * flag p0),
      fsub N y (of_int \<lfloor>y\<rfloor> * flag p1),
      fsub N z (of_int \<lfloor>z\<rfloor> * flag p2))"

text \<open>\<open>filtered_coords\<close> on a single point, and on a list of points.\<close>

definition filtered_coords :: "numerics \<Rightarrow> vec3 \<Rightarrow> pbc \<Rightarrow> vec3" where
  "filtered_coords N coords PBC = filter_vector N PBC coords"

definition filtered_coords_list :: "numerics \<Rightarrow> vec3 list \<Rightarrow> pbc \<Rightarrow> vec3 list" where
  "filtered_coords_list N coords PBC = map (filter_vector N PBC) coords"

text \<open>\<open>cdist(XA, XB)\<close> with the default metric, and \<open>np.min\<close> of a two-dimensional array.\<close>

definition cdist :: "library \<Rightarrow> vec3 list \<Rightarrow> vec3 list \<Rightarrow> real list list" where
  "cdist L XA XB = map (\<lambda>a. map (\<lambda>b. cdist_euclidean L a b) XB) XA"

definition np_min :: "real list list \<Rightarrow> real" where
  "np_min d = min_list (concat d)"

text \<open>
  \<open>distance\<close>.  \<open>matrix += xyz\<close> adds the filtered displacement to every translation; the
  list of translations is never empty, so \<open>np.min\<close> has an argument.
\<close>

definition distance :: "numerics \<Rightarrow> library \<Rightarrow> vec3 \<Rightarrow> mat3 \<Rightarrow> pbc \<Rightarrow> real" where
  "distance N L xyz lattice PBC =
     (let xyz1 = filtered_coords N xyz PBC;
          matrix = create_matrix PBC;
          matrix1 = map (\<lambda>v. vaddf N v xyz1) matrix;
          matrix2 = map (\<lambda>v. np_dot_vm L v lattice) matrix1
      in np_min (cdist L matrix2 [(0, 0, 0)]))"

subsection \<open>\<open>distance_matrix\<close> and \<open>find_short_dist\<close>\<close>

text \<open>
  \<open>np.apply_along_axis(np.min, 0, all_distances)\<close>: the entry-wise minimum over the first
  axis of a three-dimensional array, which has one layer for each translation.
\<close>

definition min_axis0 :: "real list list list \<Rightarrow> real list list" where
  "min_axis0 ds =
     map (\<lambda>i. map (\<lambda>j. min_list (map (\<lambda>d. d ! i ! j) ds)) [0..<length (hd ds ! i)])
         [0..<length (hd ds)]"

text \<open>
  \<open>distance_matrix\<close> with the default metric.  The points are Python lists of 3-vectors;
  with an empty list every branch raises \<open>ValueError\<close> (in \<open>np.dot\<close>, in \<open>cdist\<close> or in
  \<open>filtered_coords\<close>).  \<open>lattice\<close> may be \<open>None\<close>, and the identity matrix is replaced by
  \<open>None\<close> first.
\<close>

definition distance_matrix ::
  "numerics \<Rightarrow> library \<Rightarrow> vec3 list \<Rightarrow> vec3 list \<Rightarrow> mat3 option \<Rightarrow> pbc
     \<Rightarrow> py_error + real list list" where
  "distance_matrix N L points1 points2 lattice PBC =
     (if points1 = [] \<or> points2 = [] then Inl ValueError
      else
        let lattice1 = (case lattice of
                          None \<Rightarrow> None
                        | Some lat \<Rightarrow> if lat = eye3 then None else Some lat)
        in case lattice1 of
             Some lat \<Rightarrow>
               if PBC \<noteq> (False, False, False) then
                 let l1 = filtered_coords_list N points1 PBC;
                     l2 = filtered_coords_list N points2 PBC;
                     l2' = map (\<lambda>p. np_dot_vm L p lat) l2;
                     matrix = create_matrix PBC;
                     m1 = map (\<lambda>v. map (\<lambda>p. vaddf N p v) l1) matrix;
                     m1' = map (map (\<lambda>p. np_dot_vm L p lat)) m1;
                     all_distances = map (\<lambda>l. cdist L l l2') m1'
                 in Inr (min_axis0 all_distances)
               else
                 let l1 = map (\<lambda>p. np_dot_vm L p lat) points1;
                     l2 = map (\<lambda>p. np_dot_vm L p lat) points2
                 in Inr (cdist L l1 l2)
           | None \<Rightarrow>
               if PBC \<noteq> (False, False, False) then
                 let l1 = filtered_coords_list N points1 PBC;
                     l2 = filtered_coords_list N points2 PBC;
                     matrix = create_matrix PBC;
                     m1 = map (\<lambda>v. map (\<lambda>p. vaddf N p v) l1) matrix;
                     all_distances = map (\<lambda>l. cdist L l l2) m1
                 in Inr (min_axis0 all_distances)
               else Inr (cdist L points1 points2))"

text \<open>
  \<open>np.where(d <= tol)\<close>: the row indices and the column indices of the entries that pass,
  in row-major order.  \<open>np.unique\<close>: the distinct values in ascending order.
\<close>

definition np_where_le :: "real list list \<Rightarrow> real \<Rightarrow> nat list \<times> nat list" where
  "np_where_le d tol =
     (let hits = concat (map (\<lambda>i. map (\<lambda>j. (i, j))
                                     (filter (\<lambda>j. d ! i ! j \<le> tol) [0..<length (d ! i)]))
                              [0..<length d])
      in (map fst hits, map snd hits))"

definition np_unique :: "nat list \<Rightarrow> nat list" where
  "np_unique xs = sort (remdups xs)"

text \<open>
  The loop \<open>for i in np.unique(ijs[0])\<close>: \<open>j = ijs[1][i]\<close> indexes the column array by the
  row index \<open>i\<close> (out of range raises \<open>IndexError\<close>), \<open>j <= i\<close> skips, and otherwise
  \<open>[i, j, d[i][j]]\<close> is appended.
\<close>

fun collect_pairs ::
  "real list list \<Rightarrow> nat list \<Rightarrow> nat list \<Rightarrow> py_error + (nat \<times> nat \<times> real) list" where
  "collect_pairs d ijs1 [] = Inr []"
| "collect_pairs d ijs1 (i # rest) =
     (if i < length ijs1 then
        (let j = ijs1 ! i
         in if j \<le> i then collect_pairs d ijs1 rest
            else (case collect_pairs d ijs1 rest of
                    Inl e \<Rightarrow> Inl e
                  | Inr pairs \<Rightarrow> Inr ((i, j, d ! i ! j) # pairs)))
      else Inl IndexError)"

text \<open>\<open>graph[pair0].append(pair1)\<close> and \<open>graph[pair1].append(pair0)\<close>.\<close>

definition add_edge :: "nat list list \<Rightarrow> nat \<times> nat \<times> real \<Rightarrow> nat list list" where
  "add_edge graph pair =
     (case pair of (pair0, pair1, d01) \<Rightarrow>
        let graph1 = graph[pair0 := graph ! pair0 @ [pair1]]
        in graph1[pair1 := graph1 ! pair1 @ [pair0]])"

definition find_short_dist ::
  "numerics \<Rightarrow> library \<Rightarrow> vec3 list \<Rightarrow> mat3 option \<Rightarrow> real \<Rightarrow> pbc
     \<Rightarrow> py_error + ((nat \<times> nat \<times> real) list \<times> nat list list)" where
  "find_short_dist N L coor lattice tol PBC =
     (let graph = replicate (length coor) []
      in case distance_matrix N L coor coor lattice PBC of
           Inl e \<Rightarrow> Inl e
         | Inr d \<Rightarrow>
             (let ijs = np_where_le d tol
              in case collect_pairs d (snd ijs) (np_unique (fst ijs)) of
                   Inl e \<Rightarrow> Inl e
                 | Inr pairs \<Rightarrow>
                     if length pairs > 0 then
                       (let d_min = fadd N (min_list (map (\<lambda>p. snd (snd p)) pairs)) dbl_1em3;
                            pairs1 = filter (\<lambda>p. snd (snd p) \<le> d_min) pairs
                        in Inr (pairs1, foldl add_edge graph pairs1))
                     else Inr (pairs, graph)))"

subsection \<open>\<open>verify_distances\<close>\<close>

text \<open>
  The function calls \<open>Element(specie).covalent_radius\<close>.  The module neither imports nor
  defines the name \<open>Element\<close>, so the binding of that name when the function runs is an
  argument of the model: \<open>None\<close> is the module as it stands, where evaluating the name
  raises \<open>NameError\<close>; \<open>Some radius\<close> is a module in which the name is bound and
  \<open>Element(s).covalent_radius\<close> is \<open>radius s\<close>.

  The inner loop, over \<open>enumerate(coordinates)\<close>: \<open>Inr False\<close> is \<open>return False\<close>, and
  \<open>Inr True\<close> is the end of the loop without a return.
\<close>

fun verify_inner ::
  "numerics \<Rightarrow> library \<Rightarrow> (string \<Rightarrow> real) option \<Rightarrow> string list \<Rightarrow> mat3 \<Rightarrow> real \<Rightarrow> pbc
     \<Rightarrow> nat \<Rightarrow> vec3 \<Rightarrow> string \<Rightarrow> (nat \<times> vec3) list \<Rightarrow> py_error + bool" where
  "verify_inner N L element species lattice factor PBC i c1 specie1 [] = Inr True"
| "verify_inner N L element species lattice factor PBC i c1 specie1 ((j, c2) # rest) =
     (if j > i then
        (if j < length species then
           (let specie2 = species ! j;
                diff = vsubf N c2 c1;
                d_min = distance N L diff lattice PBC
            in case element of
                 None \<Rightarrow> Inl NameError
               | Some radius \<Rightarrow>
                   (let rad = fadd N (radius specie1) (radius specie2);
                        tol = fmul N (fmul N factor (1/2)) rad
                    in if d_min < tol then Inr False
                       else verify_inner N L element species lattice factor PBC i c1 specie1 rest))
         else Inl IndexError)
      else verify_inner N L element species lattice factor PBC i c1 specie1 rest)"

text \<open>The outer loop; \<open>specie1 = species[i]\<close> is read before the inner loop starts.\<close>

fun verify_outer ::
  "numerics \<Rightarrow> library \<Rightarrow> (string \<Rightarrow> real) option \<Rightarrow> string list \<Rightarrow> mat3 \<Rightarrow> real \<Rightarrow> pbc
     \<Rightarrow> (nat \<times> vec3) list \<Rightarrow> (nat \<times> vec3) list \<Rightarrow> py_error + bool" where
  "verify_outer N L element species lattice factor PBC all [] = Inr True"
| "verify_outer N L element species lattice factor PBC all ((i, c1) # rest) =
     (if i < length species then
        (case verify_inner N L element species lattice factor PBC i c1 (species ! i) all of
           Inr True \<Rightarrow> verify_outer N L element species lattice factor PBC all rest
         | r \<Rightarrow> r)
      else Inl IndexError)"

definition enumerate_list :: "'a list \<Rightarrow> (nat \<times> 'a) list" where
  "enumerate_list xs = zip [0..<length xs] xs"

definition verify_distances ::
  "numerics \<Rightarrow> library \<Rightarrow> (string \<Rightarrow> real) option \<Rightarrow> vec3 list \<Rightarrow> string list \<Rightarrow> mat3
     \<Rightarrow> real \<Rightarrow> pbc \<Rightarrow> py_error + bool" where
  "verify_distances N L element coordinates species lattice factor PBC =
     verify_outer N L element species lattice factor PBC
       (enumerate_list coordinates) (enumerate_list coordinates)"

text \<open>
  The test that the loop applies to one pair, in the words of the claim: the
  minimum-image distance of the two points is below \<open>factor\<close> times half the sum of the
  two radii.
\<close>

definition too_close ::
  "numerics \<Rightarrow> library \<Rightarrow> (string \<Rightarrow> real) \<Rightarrow> string list \<Rightarrow> mat3 \<Rightarrow> real \<Rightarrow> pbc
     \<Rightarrow> nat \<Rightarrow> vec3 \<Rightarrow> nat \<Rightarrow> vec3 \<Rightarrow> bool" where
  "too_close N L radius species lattice factor PBC i c1 j c2 =
     (distance N L (vsubf N c2 c1) lattice PBC
        < fmul N (fmul N factor (1/2)) (fadd N (radius (species ! i)) (radius (species ! j))))"

subsection \<open>\<open>project_point\<close>\<close>

text \<open>
  The point argument is a Python list or tuple, or a NumPy array.  For an array,
  \<open>point -= translation\<close> subtracts in place, in the array that the caller passed; for a
  list or a tuple it binds the local name to a new array.  The model returns, with the
  result, the argument as the caller finds it after the call.
\<close>

datatype point_arg = PySeq vec3 | NdArray vec3

fun point_value :: "point_arg \<Rightarrow> vec3" where
  "point_value (PySeq p) = p"
| "point_value (NdArray p) = p"

fun rows3 :: "mat3 \<Rightarrow> vec3 list" where
  "rows3 (r0, r1, r2) = [r0, r1, r2]"

text \<open>
  The branch \<open>PBC == [0,0,0]\<close>, for an array holding \<open>point\<close>: the contents of that array
  after \<open>point -= translation\<close>, and the vector returned.  The loop runs over the rows of
  \<open>op.rotation_matrix.T\<close>.
\<close>

definition project_direct :: "numerics \<Rightarrow> library \<Rightarrow> vec3 \<Rightarrow> symmop \<Rightarrow> vec3 \<times> vec3" where
  "project_direct N L point op =
     (let translation = translation_vector op;
          point1 = vsubf N point translation;
          new_vector =
            foldl (\<lambda>nv basis_vector.
                     let b = np_sqrt L (np_dot_vv L basis_vector basis_vector)
                     in if \<not> np_isclose N b 0 dbl_1em5 dbl_1em8
                        then vaddf N nv
                               (vscalef N basis_vector
                                  (fdiv N (np_dot_vv L point1 basis_vector) (float_pow2 L b)))
                        else nv)
                  (0, 0, 0) (rows3 (transpose3 (rotation_matrix op)))
      in (point1, vaddf N new_vector translation))"

text \<open>\<open>np.argmin\<close>: the first index of the minimum.\<close>

definition np_argmin :: "real list \<Rightarrow> nat" where
  "np_argmin ds = length (takeWhile (\<lambda>d. d \<noteq> min_list ds) ds)"

text \<open>
  One iteration of the loop \<open>for v in m\<close> of the periodic branch.  The state is the local
  array \<open>point\<close> and the lists \<open>new_vectors\<close> and \<open>distances\<close>; the inner call receives the
  local array and subtracts in it.
\<close>

definition project_step ::
  "numerics \<Rightarrow> library \<Rightarrow> symmop \<Rightarrow> mat3 \<Rightarrow> vec3 \<times> vec3 list \<times> real list \<Rightarrow> vec3
     \<Rightarrow> vec3 \<times> vec3 list \<times> real list" where
  "project_step N L op lattice st v =
     (case st of (point, new_vectors, distances) \<Rightarrow>
        let new_op = from_rotation_and_translation (rotation_matrix op)
                       (vaddf N (translation_vector op) v);
            (point1, new_vector) = project_direct N L point new_op
        in (point1, new_vectors @ [new_vector],
            distances @ [distance N L (vsubf N new_vector point1) lattice (False, False, False)]))"

definition project_point ::
  "numerics \<Rightarrow> library \<Rightarrow> point_arg \<Rightarrow> symmop \<Rightarrow> mat3 \<Rightarrow> pbc \<Rightarrow> point_arg \<times> vec3" where
  "project_point N L arg op lattice PBC =
     (if PBC = (False, False, False) then
        (case arg of
           NdArray p \<Rightarrow> (NdArray (fst (project_direct N L p op)), snd (project_direct N L p op))
         | PySeq p \<Rightarrow> (PySeq p, snd (project_direct N L p op)))
      else
        (let point = filtered_coords N (point_value arg) (True, True, True);
             m = create_matrix PBC;
             (point1, new_vectors, distances) =
               foldl (project_step N L op lattice) (point, [], []) m;
             i = np_argmin distances
         in (arg, filtered_coords N (new_vectors ! i) PBC)))"

subsection \<open>The library without rounding\<close>

text \<open>
  The companion of \<open>exact_numerics\<close>: every kernel is the mathematical function it
  approximates.  The rotation vector of a rotation matrix has length
  \<open>arccos ((trace - 1) / 2)\<close>; its direction comes from the antisymmetric part of the
  matrix, or, for a half turn, from the column of the largest diagonal entry.
\<close>

fun dot3 :: "vec3 \<Rightarrow> vec3 \<Rightarrow> real" where
  "dot3 (a, b, c) (x, y, z) = a * x + b * y + c * z"

fun vecmat3 :: "vec3 \<Rightarrow> mat3 \<Rightarrow> vec3" where
  "vecmat3 v m = (case transpose3 m of (c0, c1, c2) \<Rightarrow> (dot3 v c0, dot3 v c1, dot3 v c2))"

fun matmul3 :: "mat3 \<Rightarrow> mat3 \<Rightarrow> mat3" where
  "matmul3 (r0, r1, r2) m = (vecmat3 r0 m, vecmat3 r1 m, vecmat3 r2 m)"

fun det3 :: "mat3 \<Rightarrow> real" where
  "det3 ((a00, a01, a02), (a10, a11, a12), (a20, a21, a22)) =
     a00 * (a11 * a22 - a12 * a21) - a01 * (a10 * a22 - a12 * a20)
       + a02 * (a10 * a21 - a11 * a20)"

fun euclid3 :: "vec3 \<Rightarrow> vec3 \<Rightarrow> real" where
  "euclid3 (a, b, c) (x, y, z) = sqrt ((a - x)\<^sup>2 + (b - y)\<^sup>2 + (c - z)\<^sup>2)"

fun rotvec3 :: "mat3 \<Rightarrow> vec3" where
  "rotvec3 ((a00, a01, a02), (a10, a11, a12), (a20, a21, a22)) =
     (let th = arccos (max (- 1) (min 1 ((a00 + a11 + a22 - 1) / 2)))
      in if sin th \<noteq> 0 then
           (let k = th / (2 * sin th) in (k * (a21 - a12), k * (a02 - a20), k * (a10 - a01)))
         else if th = 0 then (0, 0, 0)
         else if a11 \<le> a00 \<and> a22 \<le> a00 then
           (let x = sqrt ((a00 + 1) / 2) in (pi * x, pi * (a01 / (2 * x)), pi * (a02 / (2 * x))))
         else if a22 \<le> a11 then
           (let y = sqrt ((a11 + 1) / 2) in (pi * (a10 / (2 * y)), pi * y, pi * (a12 / (2 * y))))
         else
           (let z = sqrt ((a22 + 1) / 2) in (pi * (a20 / (2 * z)), pi * (a21 / (2 * z)), pi * z)))"

definition exact_library :: library where
  "exact_library =
     \<lparr>np_dot_mm = matmul3, np_dot_vm = vecmat3, np_dot_vv = dot3, np_linalg_det = det3,
      np_linalg_norm = (\<lambda>v. sqrt (dot3 v v)), np_sqrt = sqrt, cdist_euclidean = euclid3,
      as_rotvec = rotvec3, float_pow2 = (\<lambda>b. b * b), pyxtal_verbosity = 1\<rparr>"

subsection \<open>Example objects\<close>

text \<open>
  The object that the constructor builds from the array \<open>[[2,0,0],[0,1,0],[0,0,1]]\<close> (a
  scaling, which is not orthogonal), and objects of a given type and angle.
\<close>

definition scaling_analyzer :: analyzer where
  "scaling_analyzer =
     new_object\<lparr>a_op := Val (from_rotation_and_translation ((2, 0, 0), (0, 1, 0), (0, 0, 1)) (0, 0, 0)),
       a_m := Val ((2, 0, 0), (0, 1, 0), (0, 0, 1)), a_det := Val 2,
       a_type := Val ''general'', a_axis := PyNone, a_angle := PyNone,
       a_order := PyNone, a_rotation_order := PyNone\<rparr>"

definition turn_analyzer :: "string \<Rightarrow> real \<Rightarrow> analyzer" where
  "turn_analyzer ty ang = new_object\<lparr>a_type := Val ty, a_angle := Val ang\<rparr>"

text \<open>
  A motion with the identity as linear part and the translation \<open>(1/2, 0, 0)\<close>, and a
  classified rotation whose axis has one component of magnitude \<open>2^-30\<close>, below the
  \<open>1e-8\<close> of \<open>np.isclose\<close> (in doubles \<open>(2^-30, 0, 1)\<close> has norm \<open>1.0\<close>).
\<close>

definition shift_op :: symmop where
  "shift_op = from_rotation_and_translation eye3 (1/2, 0, 0)"

definition tilted_analyzer :: analyzer where
  "tilted_analyzer =
     new_object\<lparr>a_op := Val (from_rotation_and_translation eye3 (0, 0, 0)),
       a_type := Val ''rotation'', a_axis := Val (1 / 2 ^ 30, 0, 1), a_angle := Val 1,
       a_order := Val Irrational, a_rotation_order := Val Irrational,
       a_inverted := Val False\<rparr>"

text \<open>
  Three points on a line, at spacing \<open>1/8\<close> along the first axis of the identity lattice.
\<close>

definition chain_points :: "vec3 list" where
  "chain_points = [(0, 0, 0), (1/8, 0, 0), (1/4, 0, 0)]"

text \<open>Two atoms, at the origin and at the centre of the cell.\<close>

definition two_atoms :: "vec3 list" where
  "two_atoms = [(0, 0, 0), (1/2, 1/2, 1/2)]"

subsection \<open>Double arithmetic\<close>

text \<open>
  \<open>round53\<close> rounds a real number to the nearest number with a significand of 53 bits,
  ties to the even significand: the rounding of IEEE binary64 wherever the result neither
  overflows nor falls into the subnormal range (the exponent is not bounded here).
\<close>

definition round53 :: "real \<Rightarrow> real" where
  "round53 x =
     (if x = 0 then 0
      else (let e = \<lfloor>log 2 \<bar>x\<bar>\<rfloor>; u = 2 powi (e - 52) in np_round (x / u) * u))"

text \<open>
  The arithmetic of doubles: each operation is the exact one followed by a single rounding;
  \<open>const_pi\<close> is the double nearest to \<open>pi\<close>.
\<close>

definition double_numerics :: numerics where
  "double_numerics =
     \<lparr>fmul = (\<lambda>a b. round53 (a * b)), fdiv = (\<lambda>a b. round53 (a / b)),
      fadd = (\<lambda>a b. round53 (a + b)), fsub = (\<lambda>a b. round53 (a - b)),
      const_pi = 884279719003555 / 2 ^ 48\<rparr>"

text \<open>
  The two kernels that \<open>distance\<close> and \<open>distance_matrix\<close> call, in double arithmetic:
  \<open>np.dot\<close> of a vector with a matrix, accumulating the rounded products from left to
  right, and one entry of \<open>cdist\<close>, the square root of the running sum of the squared
  differences.  Where these are evaluated below, every product and every partial sum is
  itself a double, so that neither the order of summation nor a fused multiply-add changes
  the value; only the square root rounds.  The remaining fields of \<open>double_library\<close>,
  which \<open>distance\<close> and \<open>distance_matrix\<close> do not read, are those of \<open>exact_library\<close>.
\<close>

fun dot_rounded :: "vec3 \<Rightarrow> mat3 \<Rightarrow> vec3" where
  "dot_rounded (x, y, z) ((a00, a01, a02), (a10, a11, a12), (a20, a21, a22)) =
     (round53 (round53 (round53 (x * a00) + round53 (y * a10)) + round53 (z * a20)),
      round53 (round53 (round53 (x * a01) + round53 (y * a11)) + round53 (z * a21)),
      round53 (round53 (round53 (x * a02) + round53 (y * a12)) + round53 (z * a22)))"

fun euclid_rounded :: "vec3 \<Rightarrow> vec3 \<Rightarrow> real" where
  "euclid_rounded (a, b, c) (x, y, z) =
     (let dx = round53 (a - x); dy = round53 (b - y); dz = round53 (c - z)
      in round53 (sqrt (round53 (round53 (round53 (dx * dx) + round53 (dy * dy))
                                 + round53 (dz * dz)))))"

definition double_library :: library where
  "double_library = exact_library\<lparr>np_dot_vm := dot_rounded, cdist_euclidean := euclid_rounded\<rparr>"



section \<open>Properties\<close>

subsection \<open>Order search\<close>

lemma np_round_is_int: "\<exists>k::int. np_round x = of_int k"
proof -
  have "np_round x = of_int \<lfloor>x\<rfloor> \<or> np_round x = of_int (\<lfloor>x\<rfloor> + 1)"
    unfolding np_round_def Let_def by presburger
  then show ?thesis by blast
qed

text \<open>No integer is closer to \<open>x\<close> than \<open>np_round x\<close>.\<close>

lemma np_round_minimal: "\<bar>x - np_round x\<bar> \<le> \<bar>x - of_int k\<bar>"
proof -
  define f where "f = \<lfloor>x\<rfloor>"
  have f1: "of_int f \<le> x" and f2: "x < of_int f + 1"
    unfolding f_def by linarith+
  have lo: "\<bar>x - np_round x\<bar> \<le> x - of_int f"
    unfolding np_round_def Let_def using f1 f2 by (auto simp: f_def[symmetric])
  have hi: "\<bar>x - np_round x\<bar> \<le> of_int f + 1 - x"
    unfolding np_round_def Let_def using f1 f2 by (auto simp: f_def[symmetric])
  show ?thesis
  proof (cases "k \<le> f")
    case True
    then have "(of_int k :: real) \<le> of_int f" by simp
    with lo f1 show ?thesis by linarith
  next
    case False
    then have "f + 1 \<le> k" by simp
    then have "(of_int f :: real) + 1 \<le> of_int k" by linarith
    with hi f2 show ?thesis by linarith
  qed
qed

lemma near_integer_iff: "near_integer x tol \<longleftrightarrow> \<bar>x - np_round x\<bar> \<le> tol"
proof
  assume "near_integer x tol"
  then obtain k :: int where "\<bar>x - of_int k\<bar> \<le> tol" unfolding near_integer_def by blast
  with np_round_minimal[of x k] show "\<bar>x - np_round x\<bar> \<le> tol" by linarith
next
  assume h: "\<bar>x - np_round x\<bar> \<le> tol"
  obtain k :: int where "np_round x = of_int k" using np_round_is_int by blast
  with h show "near_integer x tol" unfolding near_integer_def by auto
qed

lemma order_hit_iff:
  "order_hit N angle tol n \<longleftrightarrow> near_integer (turns N angle n) tol"
  by (simp add: order_hit_def near_integer_iff Let_def)

lemma find_upt_first:
  assumes "a \<le> n" "n < b" "P n" "\<forall>m. a \<le> m \<and> m < n \<longrightarrow> \<not> P m"
  shows "find P [a..<b] = Some n"
proof -
  have "\<exists>i<length [a..<b]. P ([a..<b] ! i) \<and> n = [a..<b] ! i \<and> (\<forall>j<i. \<not> P ([a..<b] ! j))"
  proof (intro exI[of _ "n - a"] conjI)
    show "n - a < length [a..<b]" using assms by simp
    show "P ([a..<b] ! (n - a))" using assms by simp
    show "n = [a..<b] ! (n - a)" using assms by simp
    show "\<forall>j<n - a. \<not> P ([a..<b] ! j)" using assms by auto
  qed
  then show ?thesis by (simp add: find_Some_iff)
qed

lemma find_upt_none:
  assumes "\<forall>m. a \<le> m \<and> m < b \<longrightarrow> \<not> P m"
  shows "find P [a..<b] = None"
  using assms by (simp add: find_None_iff)

lemma turns_exact: "turns exact_numerics angle n = real n * angle / (2 * pi)"
  by (simp add: turns_def exact_numerics_def)

text \<open>
  Claim C3.  \<open>get_order\<close> searches \<open>n\<close> from 1 to 60.  Write \<open>x n\<close> for the double that
  the code computes as \<open>(n*angle) / (2.*pi)\<close> (\<open>turns N angle n\<close>, for whatever rounding
  the multiplication and the division perform).  If \<open>n\<close> is the smallest number from 1 to
  60 for which \<open>x n\<close> is within \<open>tol\<close> of an integer, the result is \<open>n\<close>, or \<open>2 * n\<close> when
  \<open>rotoinversion\<close> is set and \<open>n\<close> is odd.  If \<open>x n\<close> is within \<open>tol\<close> of an integer for
  no \<open>n\<close> from 1 to 60, the result is the sentinel \<open>"irrational"\<close>.
\<close>

theorem get_order_search:
  "(\<forall>n. 1 \<le> n \<and> n \<le> 60
        \<and> near_integer (turns N angle n) tol
        \<and> (\<forall>m. 1 \<le> m \<and> m < n \<longrightarrow> \<not> near_integer (turns N angle m) tol)
      \<longrightarrow> get_order N angle rotoinversion tol
            = (if rotoinversion \<and> odd n then IntOrder (2 * n) else IntOrder n))
   \<and> ((\<forall>n. 1 \<le> n \<and> n \<le> 60 \<longrightarrow> \<not> near_integer (turns N angle n) tol)
      \<longrightarrow> get_order N angle rotoinversion tol = Irrational)"
proof (intro conjI allI impI)
  fix n
  assume h: "1 \<le> n \<and> n \<le> 60
        \<and> near_integer (turns N angle n) tol
        \<and> (\<forall>m. 1 \<le> m \<and> m < n \<longrightarrow> \<not> near_integer (turns N angle m) tol)"
  have "find (order_hit N angle tol) [1..<61] = Some n"
    by (rule find_upt_first) (use h in \<open>auto simp: order_hit_iff\<close>)
  then show "get_order N angle rotoinversion tol
            = (if rotoinversion \<and> odd n then IntOrder (2 * n) else IntOrder n)"
    by (auto simp: get_order_def odd_iff_mod_2_eq_one)
next
  assume h: "\<forall>n. 1 \<le> n \<and> n \<le> 60 \<longrightarrow> \<not> near_integer (turns N angle n) tol"
  have "find (order_hit N angle tol) [1..<61] = None"
    by (rule find_upt_none) (use h in \<open>auto simp: order_hit_iff\<close>)
  then show "get_order N angle rotoinversion tol = Irrational"
    by (simp add: get_order_def)
qed

text \<open>
  With exact arithmetic, the angle \<open>2 * pi / 3\<close> and \<open>tol = 1/100\<close> the smallest hit is
  \<open>n = 3\<close>: the rotation order is 3 and the rotoinversion order is 6.
\<close>

theorem get_order_search_witness:
  "near_integer (turns exact_numerics (2 * pi / 3) 3) (1/100)
   \<and> \<not> near_integer (turns exact_numerics (2 * pi / 3) 1) (1/100)
   \<and> \<not> near_integer (turns exact_numerics (2 * pi / 3) 2) (1/100)
   \<and> get_order exact_numerics (2 * pi / 3) True (1/100) = IntOrder 6
   \<and> get_order exact_numerics (2 * pi / 3) False (1/100) = IntOrder 3"
proof -
  have a: "near_integer (turns exact_numerics (2 * pi / 3) 3) (1/100)"
    by (simp add: turns_exact near_integer_iff np_round_def)
  have b: "\<not> near_integer (turns exact_numerics (2 * pi / 3) 1) (1/100)"
    by (simp add: turns_exact near_integer_iff np_round_def)
  have c: "\<not> near_integer (turns exact_numerics (2 * pi / 3) 2) (1/100)"
    by (simp add: turns_exact near_integer_iff np_round_def)
  have d: "\<forall>m. 1 \<le> m \<and> m < (3::nat)
             \<longrightarrow> \<not> near_integer (turns exact_numerics (2 * pi / 3) m) (1/100)"
  proof (intro allI impI)
    fix m :: nat assume "1 \<le> m \<and> m < 3"
    then have "m = 1 \<or> m = 2" by arith
    then show "\<not> near_integer (turns exact_numerics (2 * pi / 3) m) (1/100)"
      using b c by auto
  qed
  from get_order_search[of exact_numerics "2 * pi / 3" "1/100" True,
      THEN conjunct1, rule_format, of 3] a d
  have e: "get_order exact_numerics (2 * pi / 3) True (1/100) = IntOrder 6" by simp
  from get_order_search[of exact_numerics "2 * pi / 3" "1/100" False,
      THEN conjunct1, rule_format, of 3] a d
  have f: "get_order exact_numerics (2 * pi / 3) False (1/100) = IntOrder 3" by simp
  from a b c e f show ?thesis by blast
qed

text \<open>
  Claim C10.  Whenever \<open>get_order\<close> with \<open>rotoinversion=True\<close> returns an integer, that
  integer is even: an odd smallest \<open>n\<close> is doubled and an even one is returned as it is.
  This holds for every angle and tolerance and does not depend on how the products and
  the quotient round.
\<close>

theorem get_order_rotoinversion_even:
  "get_order N angle True tol = IntOrder k \<Longrightarrow> even k"
  by (auto simp: get_order_def split: option.splits if_splits)

theorem get_order_rotoinversion_even_witness:
  "get_order exact_numerics (2 * pi / 3) True (1/100) = IntOrder 6 \<and> even (6::nat)"
proof -
  have hit: "find (order_hit exact_numerics (2 * pi / 3) (1/100)) [1..<61] = Some 3"
    by (rule find_upt_first)
       (auto simp: order_hit_def turns_exact np_round_def Let_def
             elim!: less_SucE simp: numeral_3_eq_3)
  then have g: "get_order exact_numerics (2 * pi / 3) True (1/100) = IntOrder 6"
    by (simp add: get_order_def)
  from get_order_rotoinversion_even[OF g] g show ?thesis by simp
qed

subsection \<open>Construction from a malformed argument\<close>

lemma init_wrong_shape:
  "\<not> shape_is_3x3 rows \<Longrightarrow>
     OperationAnalyzer_init N L (ArgArray rows) = ([], Inl AttributeError)"
  by (simp add: OperationAnalyzer_init_def new_object_def)

text \<open>
  Claim C9 says that constructing an \<open>OperationAnalyzer\<close> from an argument that is neither
  a \<open>SymmOp\<close> nor a 3x3 array emits a priority-1 advisory and completes, leaving an
  unclassified object.  The code emits the advisory (priority 1 is a warning, whatever the
  verbosity) but does not complete: no branch has assigned \<open>self.m\<close>, and the next
  statement, \<open>if not is_orthogonal(self.m)\<close>, raises \<open>AttributeError\<close>.  This holds for
  every interpretation of the numeric operations, none of which is reached.
\<close>

theorem init_malformed_raises:
  "OperationAnalyzer_init N L ArgOther =
     ([Warn ''Error: OperationAnalyzer requires a SymmOp or 3x3 array.''], Inl AttributeError)"
  by (simp add: OperationAnalyzer_init_def new_object_def printx_def)

subsection \<open>Conjugacy test\<close>

lemma conjugate_test_general:
  "a_type a = Val ''general'' \<Longrightarrow> a_type b = Val ''general'' \<Longrightarrow>
     is_conjugate N L a (Classified b) = ([], Inr None)"
  by (simp add: is_conjugate_def conjugate_test_def)

lemma conjugate_test_rotation_apart:
  "a_type a = Val ''rotation'' \<Longrightarrow> a_type b = Val ''rotation'' \<Longrightarrow>
   a_angle a = Val ra \<Longrightarrow> a_angle b = Val rb \<Longrightarrow>
   \<not> np_isclose N (fdiv N ra rb) 1 dbl_1em5 dbl_1em2 \<Longrightarrow>
     is_conjugate N L a (Classified b) = ([], Inr None)"
  by (simp add: is_conjugate_def conjugate_test_def)

lemma scaling_not_orthogonal:
  "\<not> is_orthogonal exact_numerics exact_library ((2, 0, 0), (0, 1, 0), (0, 0, 1)) dbl_1em3"
  by (simp add: is_orthogonal_def exact_library_def exact_numerics_def np_allclose_def
      np_isclose_def eye3_def dbl_1em3_def dbl_1em8_def Let_def)

lemma init_scaling:
  "OperationAnalyzer_init exact_numerics exact_library (ArgArray [[2, 0, 0], [0, 1, 0], [0, 0, 1]])
   = ([], Inr scaling_analyzer)"
proof -
  have sh: "shape_is_3x3 [[2, 0, 0], [0, 1, 0], [0, 0, 1]]"
    by (simp add: shape_is_3x3_def)
  have m: "to_mat3 [[2, 0, 0], [0, 1, 0], [0, 0, 1]] = ((2, 0, 0), (0, 1, 0), (0, 0, 1))"
    by (simp add: to_mat3_def row3_def)
  have d: "np_linalg_det exact_library ((2, 0, 0), (0, 1, 0), (0, 0, 1)) = 2"
    by (simp add: exact_library_def)
  show ?thesis
    unfolding OperationAnalyzer_init_def
    by (simp add: sh m d classify_def scaling_not_orthogonal scaling_analyzer_def
        from_rotation_and_translation_def new_object_def)
qed

text \<open>
  Claim C7, as amended.  For two classified operations \<open>a\<close> and \<open>b\<close>, \<open>is_conjugate\<close>
  returns \<open>False\<close> when the types differ and \<open>True\<close> when both are \<open>identity\<close> or both
  \<open>inversion\<close>.  For two rotations or two rotoinversions it returns \<open>True\<close> if and only
  if \<open>np.isclose(angle_a / angle_b, 1., atol=1e-2)\<close> holds, that is, with the default
  \<open>rtol=1e-5\<close>, if and only if \<open>abs(ratio - 1) <= 1e-2 + 1e-5 * abs(1.)\<close> for the computed
  ratio (no absolute value is taken of the ratio in this branch).  Nothing is said about
  the result in the remaining cases.
\<close>

theorem is_conjugate_classified:
  "(a_type a = Val ta \<and> a_type b = Val tb \<and> ta \<noteq> tb
      \<longrightarrow> is_conjugate N L a (Classified b) = ([], Inr (Some False)))
   \<and> (a_type a = Val t \<and> a_type b = Val t \<and> (t = ''identity'' \<or> t = ''inversion'')
      \<longrightarrow> is_conjugate N L a (Classified b) = ([], Inr (Some True)))
   \<and> (a_type a = Val t \<and> a_type b = Val t \<and> (t = ''rotation'' \<or> t = ''rotoinversion'')
       \<and> a_angle a = Val ra \<and> a_angle b = Val rb
      \<longrightarrow> (is_conjugate N L a (Classified b) = ([], Inr (Some True)))
           = (\<bar>fsub N (fdiv N ra rb) 1\<bar> \<le> fadd N dbl_1em2 (fmul N dbl_1em5 1)))"
  by (auto simp: is_conjugate_def conjugate_test_def np_isclose_def Let_def)

theorem is_conjugate_classified_witness:
  "is_conjugate exact_numerics exact_library
      (turn_analyzer ''rotation'' 1) (Classified (turn_analyzer ''identity'' 0)) = ([], Inr (Some False))
   \<and> is_conjugate exact_numerics exact_library
      (turn_analyzer ''inversion'' 0) (Classified (turn_analyzer ''inversion'' 0)) = ([], Inr (Some True))
   \<and> is_conjugate exact_numerics exact_library
      (turn_analyzer ''rotation'' 1) (Classified (turn_analyzer ''rotation'' 1)) = ([], Inr (Some True))
   \<and> \<bar>fsub exact_numerics (fdiv exact_numerics 1 1) 1\<bar>
        \<le> fadd exact_numerics dbl_1em2 (fmul exact_numerics dbl_1em5 1)
   \<and> is_conjugate exact_numerics exact_library
      (turn_analyzer ''rotation'' 1) (Classified (turn_analyzer ''rotation'' 2)) \<noteq> ([], Inr (Some True))
   \<and> \<not> \<bar>fsub exact_numerics (fdiv exact_numerics 1 2) 1\<bar>
        \<le> fadd exact_numerics dbl_1em2 (fmul exact_numerics dbl_1em5 1)"
proof -
  have ty: "\<And>s r. a_type (turn_analyzer s r) = Val s" "\<And>s r. a_angle (turn_analyzer s r) = Val r"
    by (simp_all add: turn_analyzer_def)
  have c1: "\<bar>fsub exact_numerics (fdiv exact_numerics 1 1) 1\<bar>
        \<le> fadd exact_numerics dbl_1em2 (fmul exact_numerics dbl_1em5 1)"
    by (simp add: exact_numerics_def dbl_1em2_def dbl_1em5_def)
  have c2: "\<not> \<bar>fsub exact_numerics (fdiv exact_numerics 1 2) 1\<bar>
        \<le> fadd exact_numerics dbl_1em2 (fmul exact_numerics dbl_1em5 1)"
    by (simp add: exact_numerics_def dbl_1em2_def dbl_1em5_def)
  note th = is_conjugate_classified[where N = exact_numerics and L = exact_library]
  have w1: "is_conjugate exact_numerics exact_library
      (turn_analyzer ''rotation'' 1) (Classified (turn_analyzer ''identity'' 0)) = ([], Inr (Some False))"
    using th[of "turn_analyzer ''rotation'' 1" "''rotation''" "turn_analyzer ''identity'' 0" "''identity''",
        THEN conjunct1]
    by (simp add: ty)
  have w2: "is_conjugate exact_numerics exact_library
      (turn_analyzer ''inversion'' 0) (Classified (turn_analyzer ''inversion'' 0)) = ([], Inr (Some True))"
    using th[where a = "turn_analyzer ''inversion'' 0" and b = "turn_analyzer ''inversion'' 0"
        and t = "''inversion''", THEN conjunct2, THEN conjunct1]
    by (simp add: ty)
  have w3: "is_conjugate exact_numerics exact_library
      (turn_analyzer ''rotation'' 1) (Classified (turn_analyzer ''rotation'' 1)) = ([], Inr (Some True))"
    using th[where a = "turn_analyzer ''rotation'' 1" and b = "turn_analyzer ''rotation'' 1"
        and t = "''rotation''" and ra = 1 and rb = 1, THEN conjunct2, THEN conjunct2] c1
    by (simp add: ty)
  have w4: "is_conjugate exact_numerics exact_library
      (turn_analyzer ''rotation'' 1) (Classified (turn_analyzer ''rotation'' 2)) \<noteq> ([], Inr (Some True))"
    using th[where a = "turn_analyzer ''rotation'' 1" and b = "turn_analyzer ''rotation'' 2"
        and t = "''rotation''" and ra = 1 and rb = 2, THEN conjunct2, THEN conjunct2] c2
    by (simp add: ty)
  from w1 w2 w3 c1 w4 c2 show ?thesis by blast
qed

subsection \<open>Effects on arguments and on the object\<close>

lemma project_point_array_after:
  "fst (project_point N L (NdArray p) op lattice (False, False, False))
   = NdArray (vsubf N p (translation_vector op))"
  by (simp add: project_point_def project_direct_def Let_def)

lemma project_point_sequence_after:
  "fst (project_point N L (PySeq p) op lattice PBC) = PySeq p"
  by (simp add: project_point_def Let_def split: prod.splits)

lemma str_axis_after:
  "a_axis (fst (OperationAnalyzer_str N render (a\<lparr>a_axis := Val (x, y, z)\<rparr>)))
   = Val (if np_isclose N x 0 dbl_1em5 dbl_1em8 then 0 else x,
          if np_isclose N y 0 dbl_1em5 dbl_1em8 then 0 else y,
          if np_isclose N z 0 dbl_1em5 dbl_1em8 then 0 else z)"
  by (simp add: OperationAnalyzer_str_def Let_def)

lemma isclose_zero_exact:
  "np_isclose exact_numerics x 0 dbl_1em5 dbl_1em8 \<longleftrightarrow> \<bar>x\<bar> \<le> dbl_1em8"
  by (simp add: np_isclose_def exact_numerics_def)

lemma dbl_1em8_bounds:
  "\<not> 1 \<le> dbl_1em8" "0 \<le> dbl_1em8" "1 / 1073741824 \<le> dbl_1em8"
  "1 \<le> dbl_1em8 * 1073741824"
  by (simp_all add: dbl_1em8_def)

lemmas isclose_zero_values = isclose_zero_exact dbl_1em8_bounds

lemma project_direct_shift:
  "project_direct exact_numerics exact_library (1, 2, 3) shift_op = ((1/2, 2, 3), (1, 2, 3))"
  by (simp add: project_direct_def shift_op_def from_rotation_and_translation_def eye3_def
      exact_library_def isclose_zero_values Let_def)
     (simp add: exact_numerics_def)

lemma str_tilted:
  "a_axis (fst (OperationAnalyzer_str exact_numerics render tilted_analyzer)) = Val (0, 0, 1)"
  by (simp add: OperationAnalyzer_str_def tilted_analyzer_def new_object_def
      isclose_zero_values Let_def)

text \<open>
  Claim C6 says that no operation changes what the caller passed in or the fields of a
  classification, in particular that \<open>project_point\<close> leaves its point argument unchanged
  and that rendering the text leaves the axis unchanged.  On the code: with
  \<open>PBC == [0,0,0]\<close> and a NumPy array as point, the array holds \<open>point - translation\<close>
  after the call (the code comment calls the move temporary, but nothing moves it back);
  and \<open>__str__\<close> stores \<open>0.\<close> in every axis component that \<open>np.isclose(x, 0)\<close> accepts.
  Both hold for any rounding of the operations.  The last three conjuncts evaluate two
  inputs on which double arithmetic is exact: the array \<open>[1., 2., 3.]\<close> is left as
  \<open>[0.5, 2., 3.]\<close>, and the axis \<open>(2^-30, 0, 1)\<close> is left as \<open>(0, 0, 1)\<close>.
\<close>

theorem calls_overwrite_state:
  "fst (project_point N L (NdArray p) op lattice (False, False, False))
     = NdArray (vsubf N p (translation_vector op))
   \<and> a_axis (fst (OperationAnalyzer_str N render (a\<lparr>a_axis := Val (x, y, z)\<rparr>)))
     = Val (if np_isclose N x 0 dbl_1em5 dbl_1em8 then 0 else x,
            if np_isclose N y 0 dbl_1em5 dbl_1em8 then 0 else y,
            if np_isclose N z 0 dbl_1em5 dbl_1em8 then 0 else z)
   \<and> project_point exact_numerics exact_library (NdArray (1, 2, 3)) shift_op eye3
        (False, False, False) = (NdArray (1/2, 2, 3), (1, 2, 3))
   \<and> a_axis tilted_analyzer = Val (1 / 2 ^ 30, 0, 1)
   \<and> a_axis (fst (OperationAnalyzer_str exact_numerics render tilted_analyzer)) = Val (0, 0, 1)"
proof -
  have "project_point exact_numerics exact_library (NdArray (1, 2, 3)) shift_op eye3
        (False, False, False) = (NdArray (1/2, 2, 3), (1, 2, 3))"
    by (simp add: project_point_def project_direct_shift)
  moreover have "a_axis tilted_analyzer = Val (1 / 2 ^ 30, 0, 1)"
    by (simp add: tilted_analyzer_def)
  ultimately show ?thesis
    using project_point_array_after str_axis_after str_tilted by blast
qed

subsection \<open>Short-distance pairs\<close>

lemma upt3: "[0..<3] = [0, 1, 2]"
  by (simp add: upt_rec)

lemma where_chain:
  assumes "d00 \<le> tol" "d01 \<le> tol" "\<not> d02 \<le> tol"
          "d10 \<le> tol" "d11 \<le> tol" "d12 \<le> tol"
          "\<not> d20 \<le> tol" "d21 \<le> tol" "d22 \<le> tol"
  shows "np_where_le [[d00, d01, d02], [d10, d11, d12], [d20, d21, d22]] tol
         = ([0, 0, 1, 1, 1, 2, 2], [0, 1, 0, 1, 2, 1, 2])"
  using assms by (simp add: np_where_le_def upt3)

lemma unique_chain: "np_unique [0, 0, 1, 1, 1, 2, 2] = [0, 1, 2]"
  by (simp add: np_unique_def)

lemma collect_chain:
  "collect_pairs d [0, 1, 0, 1, 2, 1, 2] [0, 1, 2] = Inr []"
  by simp

text \<open>
  Claim C4 says that \<open>find_short_dist\<close> selects exactly the pairs \<open>(i, j)\<close>, \<open>i < j\<close>, whose
  distance is at most \<open>tol\<close>, narrows them to those within \<open>1e-3\<close> of the smallest, and
  returns them with the adjacency list built from them.  On the code this fails for three
  points in a chain: whenever the distance matrix of three points has its entries
  \<open>(0,1)\<close>, \<open>(1,2)\<close> and the diagonal within \<open>tol\<close> and the entry \<open>(0,2)\<close> above it, the
  function returns no pair and an empty adjacency list, although \<open>(0,1)\<close> and \<open>(1,2)\<close>
  qualify.  The cause is \<open>j = ijs[1][i]\<close>, which reads the column of the \<open>i\<close>-th hit, not
  of a hit in row \<open>i\<close>.  The statement holds for every way the distance matrix is
  computed and rounded.
\<close>

theorem find_short_dist_chain:
  assumes dm: "distance_matrix N L coor coor lattice PBC
                 = Inr [[d00, d01, d02], [d10, d11, d12], [d20, d21, d22]]"
    and len: "length coor = 3"
    and hits: "d00 \<le> tol" "d01 \<le> tol" "\<not> d02 \<le> tol"
          "d10 \<le> tol" "d11 \<le> tol" "d12 \<le> tol"
          "\<not> d20 \<le> tol" "d21 \<le> tol" "d22 \<le> tol"
  shows "find_short_dist N L coor lattice tol PBC = Inr ([], [[], [], []])"
proof -
  have r: "replicate (length coor) [] = [[], [], []::nat list]"
    by (simp add: len numeral_3_eq_3)
  let ?D = "[[d00, d01, d02], [d10, d11, d12], [d20, d21, d22]]"
  have step: "collect_pairs ?D (snd (np_where_le ?D tol)) (np_unique (fst (np_where_le ?D tol)))
              = Inr []"
    by (simp only: where_chain[OF hits] fst_conv snd_conv unique_chain collect_chain)
  show ?thesis
    unfolding find_short_dist_def dm Let_def
    by (simp add: step r)
qed

text \<open>
  A second pattern: points 0 and 2 are within \<open>tol\<close> of each other and point 1 is far from
  both.  The pair returned is \<open>(1, 2)\<close>, whose distance exceeds \<open>tol\<close>, and the pair
  \<open>(0, 2)\<close> is missing.
\<close>

lemma where_far:
  assumes "d00 \<le> tol" "\<not> d01 \<le> tol" "d02 \<le> tol"
          "\<not> d10 \<le> tol" "d11 \<le> tol" "\<not> d12 \<le> tol"
          "d20 \<le> tol" "\<not> d21 \<le> tol" "d22 \<le> tol"
  shows "np_where_le [[d00, d01, d02], [d10, d11, d12], [d20, d21, d22]] tol
         = ([0, 0, 1, 2, 2], [0, 2, 1, 0, 2])"
  using assms by (simp add: np_where_le_def upt3)

lemma find_short_dist_far:
  assumes dm: "distance_matrix N L coor coor lattice PBC
                 = Inr [[d00, d01, d02], [d10, d11, d12], [d20, d21, d22]]"
    and len: "length coor = 3"
    and hits: "d00 \<le> tol" "\<not> d01 \<le> tol" "d02 \<le> tol"
          "\<not> d10 \<le> tol" "d11 \<le> tol" "\<not> d12 \<le> tol"
          "d20 \<le> tol" "\<not> d21 \<le> tol" "d22 \<le> tol"
    and slack: "d12 \<le> fadd N d12 dbl_1em3"
  shows "find_short_dist N L coor lattice tol PBC = Inr ([(1, 2, d12)], [[], [2], [1]])"
proof -
  have r: "replicate (length coor) [] = [[], [], []::nat list]"
    by (simp add: len numeral_3_eq_3)
  have u: "np_unique [0, 0, 1, 2, 2] = [0, 1, 2]" by (simp add: np_unique_def)
  have c: "collect_pairs [[d00, d01, d02], [d10, d11, d12], [d20, d21, d22]] [0, 2, 1, 0, 2] [0, 1, 2]
           = Inr [(1, 2, d12)]"
    by simp
  let ?D = "[[d00, d01, d02], [d10, d11, d12], [d20, d21, d22]]"
  have step: "collect_pairs ?D (snd (np_where_le ?D tol)) (np_unique (fst (np_where_le ?D tol)))
              = Inr [(1, 2, d12)]"
    by (simp only: where_far[OF hits] fst_conv snd_conv u c)
  show ?thesis
    unfolding find_short_dist_def dm Let_def
    by (simp add: step r slack add_edge_def)
qed

lemma euclid3_axis: "euclid3 (a, 0, 0) (x, 0, 0) = \<bar>a - x\<bar>"
  by simp

lemma distance_matrix_chain:
  "distance_matrix exact_numerics exact_library chain_points chain_points (Some eye3)
     (False, False, False)
   = Inr [[0, 1/8, 1/4], [1/8, 0, 1/8], [1/4, 1/8, 0]]"
  by (simp add: distance_matrix_def chain_points_def cdist_def exact_library_def)

text \<open>
  The chain of three points at spacing \<open>1/8\<close> with \<open>tol = 3/16\<close>, the identity lattice and
  no periodicity: the distances are \<open>1/8\<close>, \<open>1/8\<close> and \<open>1/4\<close>, all computed without
  rounding in doubles.
\<close>

theorem find_short_dist_chain_witness:
  "distance_matrix exact_numerics exact_library chain_points chain_points (Some eye3)
     (False, False, False)
     = Inr [[0, 1/8, 1/4], [1/8, 0, 1/8], [1/4, 1/8, 0]]
   \<and> length chain_points = 3
   \<and> find_short_dist exact_numerics exact_library chain_points (Some eye3) (3/16)
       (False, False, False) = Inr ([], [[], [], []])"
proof -
  have len: "length chain_points = 3" by (simp add: chain_points_def)
  have "find_short_dist exact_numerics exact_library chain_points (Some eye3) (3/16)
       (False, False, False) = Inr ([], [[], [], []])"
    by (rule find_short_dist_chain[OF distance_matrix_chain len]) simp_all
  with distance_matrix_chain len show ?thesis by blast
qed

subsection \<open>Pairwise distance check\<close>

lemma enumerate_two:
  "enumerate_list (c0 # c1 # rest) = (0, c0) # (1, c1) # zip [2..<Suc (Suc (length rest))] rest"
proof -
  define n where "n = length rest"
  have a: "[0..<Suc (Suc n)] = 0 # [Suc 0..<Suc (Suc n)]"
    by (rule upt_conv_Cons) simp
  have b: "[Suc 0..<Suc (Suc n)] = Suc 0 # [Suc (Suc 0)..<Suc (Suc n)]"
    by (rule upt_conv_Cons) simp
  have "zip [0..<Suc (Suc n)] (c0 # c1 # rest) = (0, c0) # (1, c1) # zip [2..<Suc (Suc n)] rest"
    unfolding a b by (simp add: numeral_2_eq_2)
  then show ?thesis by (simp add: enumerate_list_def n_def)
qed

text \<open>
  Claim C8 says that \<open>verify_distances\<close> checks every pair \<open>i < j\<close> once against
  \<open>factor\<close> times half the sum of the two covalent radii, returns false at the first pair
  that is too close and true when there is none.  On the module as it stands, with two or
  more points (and a species label for the first two), the function returns neither: the
  first pair reached is \<open>(0, 1)\<close>, its distance is computed, and the next statement
  evaluates the unbound name \<open>Element\<close> and raises \<open>NameError\<close>.
\<close>

theorem verify_distances_name_error:
  assumes "2 \<le> length coordinates" "2 \<le> length species"
  shows "verify_distances N L None coordinates species lattice factor PBC = Inl NameError"
proof -
  obtain c0 c1 rest where c: "coordinates = c0 # c1 # rest"
    using assms(1) by (cases coordinates; cases "tl coordinates") auto
  have s: "0 < length species" "1 < length species" using assms(2) by auto
  show ?thesis
    unfolding verify_distances_def c enumerate_two
    using s by (simp add: Let_def)
qed

theorem verify_distances_name_error_witness:
  "2 \<le> length two_atoms \<and> 2 \<le> length [''C'', ''C'']
   \<and> verify_distances exact_numerics exact_library None two_atoms [''C'', ''C'']
        ((10, 0, 0), (0, 10, 0), (0, 0, 10)) 1 (True, True, True) = Inl NameError"
proof -
  have a: "2 \<le> length two_atoms" by (simp add: two_atoms_def)
  have b: "2 \<le> length [''C'', ''C'']" by simp
  from verify_distances_name_error[OF a b] a b show ?thesis by blast
qed

subsection \<open>Rounding to doubles\<close>

lemma np_round_of_int: "np_round (of_int k) = of_int k"
  by (simp add: np_round_def)

lemma np_round_lower: "of_int \<lfloor>y\<rfloor> \<le> np_round y"
  unfolding np_round_def Let_def by simp


lemma np_round_ge: "of_int k \<le> y \<Longrightarrow> of_int k \<le> np_round y"
proof -
  assume "of_int k \<le> y"
  then have "k \<le> \<lfloor>y\<rfloor>" by (simp add: le_floor_iff)
  then have "(of_int k :: real) \<le> of_int \<lfloor>y\<rfloor>" by simp
  with np_round_lower[of y] show ?thesis by linarith
qed


lemma exponent_eq:
  fixes x :: real
  assumes "2 powi e \<le> \<bar>x\<bar>" "\<bar>x\<bar> < 2 powi (e + 1)"
  shows "\<lfloor>log 2 \<bar>x\<bar>\<rfloor> = e"
proof -
  have "0 < (2::real) powi e" by simp
  with assms(1) have pos: "0 < \<bar>x\<bar>" by linarith
  have a: "(2::real) powr of_int e = 2 powi e" by (simp add: powr_real_of_int')
  have b: "(2::real) powr (of_int e + 1) = 2 powi (e + 1)"
    using powr_real_of_int'[of "2::real" "e + 1"] by simp
  show ?thesis
    using floor_log_eq_powr_iff[of "\<bar>x\<bar>" 2 e] pos assms a b by simp
qed

lemma round53_eval:
  assumes "2 powi e \<le> \<bar>x\<bar>" "\<bar>x\<bar> < 2 powi (e + 1)"
  shows "round53 x = np_round (x / 2 powi (e - 52)) * 2 powi (e - 52)"
proof -
  have "0 < (2::real) powi e" by simp
  with assms(1) have "0 < \<bar>x\<bar>" by linarith
  then have "x \<noteq> 0" by auto
  then show ?thesis by (simp add: round53_def exponent_eq[OF assms] Let_def)
qed

lemma exponent_exists:
  fixes x :: real
  assumes "x \<noteq> 0"
  shows "\<exists>e. 2 powi e \<le> \<bar>x\<bar> \<and> \<bar>x\<bar> < 2 powi (e + 1)"
proof -
  have pos: "0 < \<bar>x\<bar>" using assms by simp
  define e where "e = \<lfloor>log 2 \<bar>x\<bar>\<rfloor>"
  have a: "(2::real) powr of_int e = 2 powi e" by (simp add: powr_real_of_int')
  have b: "(2::real) powr (of_int e + 1) = 2 powi (e + 1)"
    using powr_real_of_int'[of "2::real" "e + 1"] by simp
  have "2 powr of_int e \<le> \<bar>x\<bar> \<and> \<bar>x\<bar> < 2 powr (of_int e + 1)"
    using floor_log_eq_powr_iff[of "\<bar>x\<bar>" 2 e] pos e_def by simp
  then show ?thesis using a b by auto
qed


lemma pow2_less_imp: "(2::real) powi a < 2 powi b \<Longrightarrow> a < b"
proof (rule ccontr)
  assume h: "(2::real) powi a < 2 powi b" and "\<not> a < b"
  then have "b \<le> a" by simp
  then have "(2::real) powi b \<le> 2 powi a" by (intro power_int_increasing) auto
  with h show False by simp
qed

lemma dyadic_on_grid:
  assumes m: "\<bar>m\<bar> < 2 ^ 53" and lo: "2 powi e \<le> \<bar>of_int m * 2 powi k :: real\<bar>"
  shows "\<exists>n::int. (of_int m * 2 powi k :: real) = of_int n * 2 powi (e - 52)"
proof -
  have pk: "0 < (2::real) powi k" by simp
  have "\<bar>of_int m * 2 powi k :: real\<bar> = of_int \<bar>m\<bar> * 2 powi k"
    by (simp add: abs_mult)
  also have "\<dots> < 2 ^ 53 * 2 powi k"
  proof -
    have "(of_int \<bar>m\<bar> :: real) < of_int (2 ^ 53)" using m by (simp only: of_int_less_iff)
    then have "(of_int \<bar>m\<bar> :: real) < 2 ^ 53" by simp
    then show ?thesis using pk by simp
  qed
  also have "\<dots> = 2 powi (53 + k)"
    by (simp add: power_int_add)
  finally have "(2::real) powi e < 2 powi (53 + k)" using lo by linarith
  then have "e < 53 + k" by (rule pow2_less_imp)
  then have j: "0 \<le> k - e + 52" by simp
  define n where "n = m * 2 ^ nat (k - e + 52)"
  have "(of_int n :: real) * 2 powi (e - 52) = of_int m * (2 powi (k - e + 52) * 2 powi (e - 52))"
    using j by (simp add: n_def power_int_nonneg_exp)
  also have "(2::real) powi (k - e + 52) * 2 powi (e - 52) = 2 powi k"
    using power_int_add[of "2::real" "k - e + 52" "e - 52"] by simp
  finally show ?thesis by metis
qed

lemma round53_dyadic:
  assumes m: "\<bar>m\<bar> < 2 ^ 53"
  shows "round53 (of_int m * 2 powi k) = of_int m * 2 powi k"
proof (cases "m = 0")
  case True
  then show ?thesis by (simp add: round53_def)
next
  case False
  define x :: real where "x = of_int m * 2 powi k"
  have "x \<noteq> 0" using False by (simp add: x_def)
  then obtain e where e: "2 powi e \<le> \<bar>x\<bar>" "\<bar>x\<bar> < 2 powi (e + 1)"
    using exponent_exists by blast
  obtain n :: int where n: "x = of_int n * 2 powi (e - 52)"
    using dyadic_on_grid[OF m, of e k] e(1) unfolding x_def by blast
  have u: "(2::real) powi (e - 52) \<noteq> 0" by simp
  have "x / 2 powi (e - 52) = of_int n" using n u by simp
  then have "round53 x = of_int n * 2 powi (e - 52)"
    by (simp add: round53_eval[OF e] np_round_of_int)
  then show ?thesis using n by (simp add: x_def)
qed

lemma round53_ge:
  assumes m: "\<bar>m\<bar> < 2 ^ 53" and a: "a = of_int m * 2 powi k" and pos: "0 < a" and le: "a \<le> x"
  shows "a \<le> round53 x"
proof -
  have xpos: "0 < x" using pos le by linarith
  then obtain e where e: "2 powi e \<le> \<bar>x\<bar>" "\<bar>x\<bar> < 2 powi (e + 1)"
    using exponent_exists[of x] by auto
  define u :: real where "u = 2 powi (e - 52)"
  have upos: "0 < u" by (simp add: u_def)
  have r: "round53 x = np_round (x / u) * u" by (simp add: round53_eval[OF e] u_def)
  have pe: "(2::real) powi e = 2 ^ 52 * u"
    using power_int_add[of "2::real" 52 "e - 52"] by (simp add: u_def)
  show ?thesis
  proof (cases "a < 2 powi e")
    case True
    have "2 ^ 52 * u \<le> x" using e(1) xpos pe by simp
    then have "of_int (2 ^ 52) \<le> x / u" using upos by (simp add: pos_le_divide_eq)
    then have "of_int (2 ^ 52) \<le> np_round (x / u)" by (rule np_round_ge)
    then have "2 ^ 52 * u \<le> np_round (x / u) * u" using upos by simp
    with True pe r show ?thesis by linarith
  next
    case False
    then have "2 powi e \<le> \<bar>of_int m * 2 powi k :: real\<bar>" using a pos by simp
    then obtain n :: int where n: "(of_int m * 2 powi k :: real) = of_int n * 2 powi (e - 52)"
      using dyadic_on_grid[OF m] by blast
    then have an: "a = of_int n * u" by (simp add: a u_def)
    then have "of_int n \<le> x / u" using le upos by (simp add: pos_le_divide_eq)
    then have "of_int n \<le> np_round (x / u)" by (rule np_round_ge)
    then have "of_int n * u \<le> np_round (x / u) * u" using upos by simp
    with an r show ?thesis by simp
  qed
qed









lemma round53_frac:
  assumes "\<bar>m\<bar> < 2 ^ 53"
  shows "round53 (of_int m / 2 ^ n) = of_int m / 2 ^ n"
proof -
  have "(2::real) powi (- int n) = 1 / 2 ^ n"
    by (simp add: power_int_minus inverse_eq_divide)
  then have "(of_int m * 2 powi (- int n) :: real) = of_int m / 2 ^ n" by simp
  with round53_dyadic[OF assms, of "- int n"] show ?thesis by simp
qed

lemma round53_ge_frac:
  assumes "\<bar>m\<bar> < 2 ^ 53" "0 < m" "of_int m / 2 ^ n \<le> x"
  shows "of_int m / 2 ^ n \<le> round53 x"
proof -
  have "(2::real) powi (- int n) = 1 / 2 ^ n"
    by (simp add: power_int_minus inverse_eq_divide)
  then have e: "(of_int m / 2 ^ n :: real) = of_int m * 2 powi (- int n)" by simp
  have "0 < (of_int m / 2 ^ n :: real)" using assms(2) by simp
  from round53_ge[OF assms(1) e this assms(3)] show ?thesis .
qed




subsection \<open>Symmetry of the distance matrix\<close>







lemma v_1: "round53 1 = 1"
  using round53_frac[of 1 0] by simp


















subsection \<open>Minimum-image distance\<close>
























subsection \<open>Conjugacy test: where the claim fails\<close>

lemma wide_values:
  "round53 (5245 / 524288) = 5245 / 524288"
  "round53 (529533 / 524288) = 529533 / 524288"
  "round53 dbl_1em5 = dbl_1em5"
proof -
  have e: "(5245 / 524288 :: real) = of_int 5245 / 2 ^ 19"
          "(529533 / 524288 :: real) = of_int 529533 / 2 ^ 19"
          "dbl_1em5 = of_int 5902958103587057 / 2 ^ 69"
    by (simp_all add: dbl_1em5_def)
  show "round53 (5245 / 524288) = 5245 / 524288"
    unfolding e by (rule round53_frac) simp
  show "round53 (529533 / 524288) = 529533 / 524288"
    unfolding e by (rule round53_frac) simp
  show "round53 dbl_1em5 = dbl_1em5"
    unfolding e by (rule round53_frac) simp
qed

lemma wide_bound: "5245 / 524288 \<le> round53 (dbl_1em2 + dbl_1em5)"
proof -
  have e: "(5245 / 524288 :: real) = of_int 5245 / 2 ^ 19" by simp
  show ?thesis
    unfolding e by (rule round53_ge_frac) (simp_all add: dbl_1em2_def dbl_1em5_def)
qed

lemma isclose_wide:
  "np_isclose double_numerics (529533 / 524288) 1 dbl_1em5 dbl_1em2"
proof -
  have d: "(529533 / 524288 - 1 :: real) = 5245 / 524288" by simp
  have m: "dbl_1em5 * \<bar>1\<bar> = dbl_1em5" by simp
  have "\<bar>round53 (529533 / 524288 - 1)\<bar> \<le> round53 (dbl_1em2 + round53 (dbl_1em5 * \<bar>1\<bar>))"
    unfolding d m wide_values using wide_bound by linarith
  then show ?thesis
    by (simp only: np_isclose_def double_numerics_def numerics.simps)
qed

lemma ratio_wide: "fdiv double_numerics (529533 / 524288) 1 = 529533 / 524288"
  by (simp add: double_numerics_def wide_values)

text \<open>
  Two pairs of classified operations at which the claim about \<open>is_conjugate\<close> fails.
  In double arithmetic, two rotations by the angles \<open>529533/524288\<close> (about \<open>1.010004\<close>)
  and \<open>1\<close> are accepted, although their ratio is not within \<open>1e-2\<close> of \<open>1\<close>: the bound
  that \<open>np.isclose\<close> computes is \<open>1e-2 + 1e-5\<close>.  And for the non-orthogonal matrix
  \<open>[[2,0,0],[0,1,0],[0,0,1]]\<close>, classified as \<open>general\<close>, the types match, neither inner
  branch applies, and the function ends without \<open>return\<close>: the result is \<open>None\<close>, not a
  boolean.
\<close>

theorem is_conjugate_beyond_claim:
  "is_conjugate double_numerics double_library
      (turn_analyzer ''rotation'' (529533 / 524288)) (Classified (turn_analyzer ''rotation'' 1))
     = ([], Inr (Some True))
   \<and> \<not> \<bar>(529533 / 524288) / 1 - 1\<bar> \<le> (1 / 100 :: real)
   \<and> \<not> \<bar>(529533 / 524288) / 1 - 1\<bar> \<le> dbl_1em2
   \<and> OperationAnalyzer_init exact_numerics exact_library (ArgArray [[2, 0, 0], [0, 1, 0], [0, 0, 1]])
     = ([], Inr scaling_analyzer)
   \<and> is_conjugate exact_numerics exact_library scaling_analyzer (Classified scaling_analyzer)
     = ([], Inr None)"
proof -
  have t: "a_type scaling_analyzer = Val ''general''"
    by (simp add: scaling_analyzer_def)
  have c: "is_conjugate double_numerics double_library
      (turn_analyzer ''rotation'' (529533 / 524288)) (Classified (turn_analyzer ''rotation'' 1))
     = ([], Inr (Some True))"
    by (simp add: is_conjugate_def conjugate_test_def turn_analyzer_def ratio_wide isclose_wide
        Let_def)
  have d: "\<not> \<bar>(529533 / 524288) / 1 - 1\<bar> \<le> (1 / 100 :: real)"
          "\<not> \<bar>(529533 / 524288) / 1 - 1\<bar> \<le> dbl_1em2"
    by (simp_all add: dbl_1em2_def)
  show ?thesis
    using c d init_scaling conjugate_test_general[OF t t] by simp
qed

subsection \<open>Pairwise distance check with \<open>Element\<close> bound\<close>

lemma verify_inner_bound:
  assumes "\<forall>(j, c2) \<in> set xs. j < length species"
  shows "verify_inner N L (Some radius) species lattice factor PBC i c1 (species ! i) xs
         = Inr (\<forall>(j, c2) \<in> set xs. i < j \<longrightarrow>
                  \<not> too_close N L radius species lattice factor PBC i c1 j c2)"
  using assms
proof (induction xs)
  case Nil
  then show ?case by simp
next
  case (Cons x xs)
  obtain j c2 where x: "x = (j, c2)" by (cases x) auto
  from Cons.prems have j: "j < length species" and rest: "\<forall>(j, c2) \<in> set xs. j < length species"
    by (auto simp: x)
  show ?case
    using Cons.IH[OF rest] j
    by (auto simp: x too_close_def Let_def)
qed

lemma verify_outer_bound:
  assumes "\<forall>(i, c1) \<in> set xs. i < length species"
    and "\<forall>(j, c2) \<in> set all. j < length species"
  shows "verify_outer N L (Some radius) species lattice factor PBC all xs
         = Inr (\<forall>(i, c1) \<in> set xs. \<forall>(j, c2) \<in> set all. i < j \<longrightarrow>
                  \<not> too_close N L radius species lattice factor PBC i c1 j c2)"
  using assms(1)
proof (induction xs)
  case Nil
  then show ?case by simp
next
  case (Cons x xs)
  obtain i c1 where x: "x = (i, c1)" by (cases x) auto
  from Cons.prems have i: "i < length species" and rest: "\<forall>(i, c1) \<in> set xs. i < length species"
    by (auto simp: x)
  show ?case
    using Cons.IH[OF rest] i verify_inner_bound[OF assms(2), of N L radius lattice factor PBC i c1]
    by (auto simp: x split: bool.splits)
qed

lemma set_enumerate_list: "set (enumerate_list xs) = {(i, xs ! i) | i. i < length xs}"
proof -
  have "set (zip [0..<length xs] xs) = {([0..<length xs] ! i, xs ! i) | i. i < length xs}"
    by (simp add: set_zip)
  also have "\<dots> = {(i, xs ! i) | i. i < length xs}"
  proof (intro set_eqI iffI)
    fix p assume "p \<in> {([0..<length xs] ! i, xs ! i) | i. i < length xs}"
    then obtain i where "i < length xs" "p = ([0..<length xs] ! i, xs ! i)" by blast
    then show "p \<in> {(i, xs ! i) | i. i < length xs}" by simp
  next
    fix p assume "p \<in> {(i, xs ! i) | i. i < length xs}"
    then obtain i where i: "i < length xs" "p = (i, xs ! i)" by blast
    then have "p = ([0..<length xs] ! i, xs ! i)" by simp
    with i(1) show "p \<in> {([0..<length xs] ! i, xs ! i) | i. i < length xs}" by blast
  qed
  finally show ?thesis by (simp add: enumerate_list_def)
qed

text \<open>
  In a module that binds \<open>Element\<close>, and with a species label for every point, the
  function returns \<open>True\<close> exactly when no pair \<open>i < j\<close> is too close, and \<open>False\<close>
  otherwise: the loop is the check that claim C8 describes.
\<close>

lemma verify_distances_bound:
  assumes "length coordinates \<le> length species"
  shows "verify_distances N L (Some radius) coordinates species lattice factor PBC
         = Inr (\<forall>i j. i < j \<and> j < length coordinates \<longrightarrow>
                  \<not> too_close N L radius species lattice factor PBC
                       i (coordinates ! i) j (coordinates ! j))"
proof -
  have b: "\<forall>(i, c) \<in> set (enumerate_list coordinates). i < length species"
    using assms by (auto simp: set_enumerate_list)
  have "(\<forall>(i, c1) \<in> set (enumerate_list coordinates).
           \<forall>(j, c2) \<in> set (enumerate_list coordinates). i < j \<longrightarrow>
                  \<not> too_close N L radius species lattice factor PBC i c1 j c2)
        \<longleftrightarrow> (\<forall>i j. i < j \<and> j < length coordinates \<longrightarrow>
                  \<not> too_close N L radius species lattice factor PBC
                       i (coordinates ! i) j (coordinates ! j))"
    by (auto simp: set_enumerate_list)
  then show ?thesis
    unfolding verify_distances_def verify_outer_bound[OF b b] by simp
qed

end
